theory Spec2Isabelle
  imports Main "HOL-Library.Word"
begin

section \<open>JavaScript strings\<close>

text \<open>
  A JavaScript string is a sequence of UTF-16 code units. The storage marker of
  \<^verbatim>\<open>ResourceInput.vue\<close> is the seven-unit string U+3010 \<^verbatim>\<open>$RES$\<close> U+3011.
\<close>

type_synonym jsstring = "16 word list"

definition DELIM :: jsstring where
  "DELIM = [0x3010, 0x24, 0x52, 0x45, 0x53, 0x24, 0x3011]"

text \<open>\<^verbatim>\<open>s.startsWith(p)\<close>, written on lists.\<close>

definition startsWith :: "jsstring \<Rightarrow> jsstring \<Rightarrow> bool" where
  "startsWith p s \<longleftrightarrow> take (length p) s = p"

text \<open>\<^verbatim>\<open>content.includes(p)\<close>: some suffix of the string starts with \<open>p\<close>.\<close>

fun includes_str :: "jsstring \<Rightarrow> jsstring \<Rightarrow> bool" where
  "includes_str p [] = startsWith p []"
| "includes_str p (c # cs) = (startsWith p (c # cs) \<or> includes_str p cs)"

text \<open>
  The regular expression's \<^verbatim>\<open>.\<close> (no \<^verbatim>\<open>s\<close> flag) matches every code unit except the
  four line terminators LF, CR, U+2028 and U+2029.
\<close>

definition lineTerminator :: "16 word \<Rightarrow> bool" where
  "lineTerminator c \<longleftrightarrow> c = 0x0A \<or> c = 0x0D \<or> c = 0x2028 \<or> c = 0x2029"

section \<open>Resources and the editable surface\<close>

datatype resource_type = Code | File | Image | Folder

text \<open>
  The fields of \<^verbatim>\<open>interface Resource\<close> that the modelled functions read. The
  remaining fields (language, languageId, code, startLine, endLine, name) are only
  read when a tag's label, icon or display text is rendered.
\<close>

record resource =
  resource_id :: jsstring
  resource_type :: resource_type
  filePath :: "jsstring option"

text \<open>
  The child nodes of the editable \<^verbatim>\<open>div\<close>. A \<^verbatim>\<open>span.resource-tag\<close> element carries
  its object identity (the map \<^verbatim>\<open>resourcesMap\<close> stores references to elements) and its
  \<^verbatim>\<open>data-resource-id\<close> attribute; its descendants (icon, label, close button) are
  presentation only and are left out. Every other element keeps its tag name and its
  child nodes. The trees stand for the surfaces in which no resource tag lies below
  another resource tag: the component builds every tag with presentation descendants
  only, and the one operation that can put a tag below a tag, \<^verbatim>\<open>insertResourceTag\<close> at
  a selection inside a tag, has no result in this model.
\<close>

datatype node =
    TextNode jsstring
  | ResourceTag nat jsstring
  | Element string "node list"

datatype emit =
    Emit_update_modelValue jsstring
  | Emit_input
  | Emit_enter
  | Emit_ctrl_enter
  | Emit_arrow_up
  | Emit_resource_removed jsstring

text \<open>
  Callbacks handed to \<^verbatim>\<open>nextTick\<close>, in the order they were queued:
  \<^verbatim>\<open>ensureInputArea(); ensureMinHeight()\<close> (from \<^verbatim>\<open>insertResourceTag\<close> and
  \<^verbatim>\<open>parseContentWithResources\<close>), the clean-up of \<^verbatim>\<open>updateResources\<close>, its
  delayed \<^verbatim>\<open>syncValue()\<close>, and the clean-up of \<^verbatim>\<open>removeResource\<close>.
\<close>

datatype deferred =
    Tick_ensureInputArea
  | Tick_updateResources
  | Tick_syncValue
  | Tick_removeResource

text \<open>
  The component instance: whether \<^verbatim>\<open>editableDiv.value\<close> is set, the child nodes of
  the editable \<^verbatim>\<open>div\<close>, \<^verbatim>\<open>resourcesMap\<close> (resource id to element), the supply of fresh
  element identities for \<^verbatim>\<open>document.createElement\<close>, the events emitted so far and
  the queued \<^verbatim>\<open>nextTick\<close> callbacks.
\<close>

record state =
  mounted :: bool
  childNodes :: "node list"
  resourcesMap :: "jsstring \<rightharpoonup> nat"
  nextHandle :: nat
  emitted :: "emit list"
  pending :: "deferred list"

section \<open>Serializer\<close>

text \<open>
  \<^verbatim>\<open>extractTextFromNode(node, false)\<close>, the storage mode used by \<^verbatim>\<open>getContent\<close>, over
  the child nodes of \<^verbatim>\<open>node\<close>. A tag with an empty \<^verbatim>\<open>data-resource-id\<close> contributes
  nothing (\<^verbatim>\<open>if (resourceId)\<close>), and a tag is never descended into.
\<close>

fun extractTextFromNode :: "node list \<Rightarrow> jsstring" where
  "extractTextFromNode [] = []"
| "extractTextFromNode (TextNode t # cs) = t @ extractTextFromNode cs"
| "extractTextFromNode (ResourceTag h i # cs) =
     (if i \<noteq> [] then DELIM @ i @ DELIM else []) @ extractTextFromNode cs"
| "extractTextFromNode (Element n ch # cs) = extractTextFromNode ch @ extractTextFromNode cs"

definition getContent :: "state \<Rightarrow> jsstring" where
  "getContent st = (if \<not> mounted st then [] else extractTextFromNode (childNodes st))"

text \<open>
  The storage string that a sequence of nodes stands for: text verbatim and every tag
  as marker, id, marker. It differs from \<^verbatim>\<open>extractTextFromNode\<close> only on a tag whose
  id is the empty string.
\<close>

fun storageText :: "node list \<Rightarrow> jsstring" where
  "storageText [] = []"
| "storageText (TextNode t # cs) = t @ storageText cs"
| "storageText (ResourceTag h i # cs) = DELIM @ i @ DELIM @ storageText cs"
| "storageText (Element n ch # cs) = storageText ch @ storageText cs"

subsection \<open>The pattern of \<^verbatim>\<open>parseContentWithResources\<close>\<close>

text \<open>
  The lazy group \<^verbatim>\<open>(.*?)\<close> followed by the closing marker, tried at the position just
  after an opening marker: the closing marker is tested first, otherwise one more
  code unit is consumed unless it is a line terminator. The result is the captured id
  and the input left after the match.
\<close>

fun lazyGroup :: "jsstring \<Rightarrow> (jsstring \<times> jsstring) option" where
  "lazyGroup [] = None"
| "lazyGroup (c # cs) =
     (if startsWith DELIM (c # cs) then Some ([], drop (length DELIM) (c # cs))
      else if lineTerminator c then None
      else map_option (\<lambda>(g, r). (c # g, r)) (lazyGroup cs))"

text \<open>
  \<^verbatim>\<open>resourcePattern.exec(content)\<close> on the input from \<^verbatim>\<open>lastIndex\<close> on: the leftmost
  start position at which the whole pattern matches. The result is the text between
  \<^verbatim>\<open>lastIndex\<close> and \<^verbatim>\<open>match.index\<close>, the group \<^verbatim>\<open>match[1]\<close> and the input after the
  match.
\<close>

fun resourcePattern_exec :: "jsstring \<Rightarrow> (jsstring \<times> jsstring \<times> jsstring) option" where
  "resourcePattern_exec [] = None"
| "resourcePattern_exec (c # cs) =
     (case (if startsWith DELIM (c # cs) then lazyGroup (drop (length DELIM) (c # cs)) else None) of
        Some (g, r) \<Rightarrow> Some ([], g, r)
      | None \<Rightarrow> map_option (\<lambda>(b, g, r). (c # b, g, r)) (resourcePattern_exec cs))"

lemma lazyGroup_shorter: "lazyGroup s = Some (g, r) \<Longrightarrow> length r < length s"
  by (induction s arbitrary: g) (auto simp: DELIM_def split: if_splits)

lemma resourcePattern_exec_shorter:
  "resourcePattern_exec s = Some (b, g, r) \<Longrightarrow> length r < length s"
proof (induction s arbitrary: b)
  case Nil
  then show ?case by simp
next
  case (Cons c cs)
  show ?case
  proof (cases "if startsWith DELIM (c # cs) then lazyGroup (drop (length DELIM) (c # cs)) else None")
    case None
    with Cons.prems obtain b' where "resourcePattern_exec cs = Some (b', g, r)"
      by auto
    with Cons.IH show ?thesis by fastforce
  next
    case (Some a)
    with Cons.prems have "lazyGroup (drop (length DELIM) (c # cs)) = Some (g, r)"
      by (auto split: if_splits)
    from lazyGroup_shorter[OF this] show ?thesis by simp
  qed
qed


section \<open>Parsing the storage string\<close>

text \<open>\<^verbatim>\<open>list.find((r) => r.id === resourceId)\<close>.\<close>

definition findResource :: "resource list \<Rightarrow> jsstring \<Rightarrow> resource option" where
  "findResource rs i = find (\<lambda>r. resource_id r = i) rs"

text \<open>\<^verbatim>\<open>div.appendChild(n)\<close>.\<close>

definition appendChild :: "node \<Rightarrow> state \<Rightarrow> state" where
  "appendChild n st = st\<lparr>childNodes := childNodes st @ [n]\<rparr>"

text \<open>
  The element built for a resource found in \<^verbatim>\<open>props.resources\<close>: a fresh
  \<^verbatim>\<open>span.resource-tag\<close> with \<^verbatim>\<open>data-resource-id = resource.id\<close>, appended to the
  surface and registered in \<^verbatim>\<open>resourcesMap\<close>.
\<close>

definition appendTag :: "resource \<Rightarrow> state \<Rightarrow> state" where
  "appendTag r st =
     st\<lparr>childNodes := childNodes st @ [ResourceTag (nextHandle st) (resource_id r)],
        resourcesMap := (resourcesMap st)(resource_id r \<mapsto> nextHandle st),
        nextHandle := Suc (nextHandle st)\<rparr>"

text \<open>
  The body of the \<^verbatim>\<open>while ((match = resourcePattern.exec(content)) !== null)\<close> loop
  of \<^verbatim>\<open>parseContentWithResources\<close>, for one match: the text before the match, when
  there is some, then the tag of the resource, or the matched text itself when no
  resource has the id. \<^verbatim>\<open>match[0]\<close>, the matched text, is the marker, the group and the
  marker again.
\<close>

definition parseMatch :: "resource list \<Rightarrow> jsstring \<Rightarrow> jsstring \<Rightarrow> state \<Rightarrow> state" where
  "parseMatch props textBefore resourceId st =
     (case findResource props resourceId of
        Some r \<Rightarrow> appendTag r
      | None \<Rightarrow> appendChild (TextNode (DELIM @ resourceId @ DELIM)))
     (if textBefore \<noteq> [] then appendChild (TextNode textBefore) st else st)"

text \<open>
  The loop together with the code after it, on the input from \<^verbatim>\<open>lastIndex\<close> on: what
  is left after the last match becomes a text node when it is not empty.
\<close>

function parseLoop :: "resource list \<Rightarrow> jsstring \<Rightarrow> state \<Rightarrow> state" where
  "parseLoop props content st =
     (case resourcePattern_exec content of
        None \<Rightarrow> (if content \<noteq> [] then appendChild (TextNode content) st else st)
      | Some (textBefore, resourceId, rest) \<Rightarrow>
          parseLoop props rest (parseMatch props textBefore resourceId st))"
  by pat_completeness auto
termination
  by (relation "measure (\<lambda>(props, content, st). length content)")
     (auto dest: resourcePattern_exec_shorter)

declare parseLoop.simps [simp del]

text \<open>
  \<^verbatim>\<open>parseContentWithResources(content)\<close>: \<^verbatim>\<open>div.textContent = ''\<close> removes every child
  of the surface; \<^verbatim>\<open>resourcesMap\<close> is not cleared.
\<close>

definition parseContentWithResources :: "resource list \<Rightarrow> jsstring \<Rightarrow> state \<Rightarrow> state" where
  "parseContentWithResources props content st =
     (if \<not> mounted st then st
      else let st' = parseLoop props content (st\<lparr>childNodes := []\<rparr>)
           in st'\<lparr>pending := pending st' @ [Tick_ensureInputArea]\<rparr>)"

text \<open>
  \<^verbatim>\<open>setContent(content)\<close>. Assigning a non-empty string to \<^verbatim>\<open>div.textContent\<close> replaces
  the children by one text node; assigning the empty string leaves no child.
\<close>

definition setContent :: "resource list \<Rightarrow> jsstring \<Rightarrow> state \<Rightarrow> state" where
  "setContent props content st =
     (if \<not> mounted st then st
      else if includes_str DELIM content then parseContentWithResources props content st
      else st\<lparr>childNodes := (if content = [] then [] else [TextNode content])\<rparr>)"

text \<open>\<^verbatim>\<open>syncValue()\<close>: emits \<^verbatim>\<open>update:modelValue\<close> with the storage string.\<close>

definition syncValue :: "state \<Rightarrow> state" where
  "syncValue st = st\<lparr>emitted := emitted st @ [Emit_update_modelValue (getContent st)]\<rparr>"


section \<open>Queries and mutations of the surface\<close>

text \<open>
  \<^verbatim>\<open>div.querySelectorAll('.resource-tag')\<close>: the tag elements below the surface in
  document order, each with its identity and its \<^verbatim>\<open>data-resource-id\<close>.
\<close>

fun querySelectorAll_tags :: "node list \<Rightarrow> (nat \<times> jsstring) list" where
  "querySelectorAll_tags [] = []"
| "querySelectorAll_tags (TextNode t # cs) = querySelectorAll_tags cs"
| "querySelectorAll_tags (ResourceTag h i # cs) = (h, i) # querySelectorAll_tags cs"
| "querySelectorAll_tags (Element n ch # cs) = querySelectorAll_tags ch @ querySelectorAll_tags cs"

text \<open>
  \<^verbatim>\<open>element.remove()\<close> and \<^verbatim>\<open>tag.parentNode.removeChild(tag)\<close>: the element with the
  given identity leaves the tree.
\<close>

fun removeElement :: "nat \<Rightarrow> node list \<Rightarrow> node list" where
  "removeElement h [] = []"
| "removeElement h (TextNode t # cs) = TextNode t # removeElement h cs"
| "removeElement h (ResourceTag h' i # cs) =
     (if h' = h then removeElement h cs else ResourceTag h' i # removeElement h cs)"
| "removeElement h (Element n ch # cs) = Element n (removeElement h ch) # removeElement h cs"

text \<open>\<^verbatim>\<open>tag.setAttribute('data-resource-id', v)\<close> on the element with the given identity.\<close>

fun setAttribute :: "nat \<Rightarrow> jsstring \<Rightarrow> node list \<Rightarrow> node list" where
  "setAttribute h v [] = []"
| "setAttribute h v (TextNode t # cs) = TextNode t # setAttribute h v cs"
| "setAttribute h v (ResourceTag h' i # cs) =
     (if h' = h then ResourceTag h' v else ResourceTag h' i) # setAttribute h v cs"
| "setAttribute h v (Element n ch # cs) = Element n (setAttribute h v ch) # setAttribute h v cs"

subsection \<open>The browser selection\<close>

text \<open>
  A node below the surface is addressed by the child indices leading to it from the
  editable \<^verbatim>\<open>div\<close> (the empty path is the \<^verbatim>\<open>div\<close> itself). A range has a start and an
  end boundary point, each a container and an offset into it; a container is below
  the surface or elsewhere in the page. What \<^verbatim>\<open>window.getSelection()\<close> holds belongs
  to the browser, so every function that reads it takes a function from the current
  state to the range of the selection (\<open>None\<close> when there is no selection or
  \<^verbatim>\<open>rangeCount\<close> is 0). A path that ends at a resource tag addresses the tag itself;
  a path that goes on below a tag addresses one of its descendants (the label, the
  close button, their text), and what follows the index of the tag is not interpreted.
\<close>

type_synonym path = "nat list"

datatype container = Outside | Inside path

datatype domrange = Range container nat container nat

type_synonym selection = "state \<Rightarrow> domrange option"

text \<open>
  A boundary point between represented nodes: the container is the surface, an element
  other than a tag or a text node, and the offset is within it.
\<close>

fun validBoundary :: "node list \<Rightarrow> path \<Rightarrow> nat \<Rightarrow> bool" where
  "validBoundary cs [] k = (k \<le> length cs)"
| "validBoundary cs (i # p) k =
     (i < length cs \<and>
      (case cs ! i of
         TextNode s \<Rightarrow> p = [] \<and> k \<le> length s
       | ResourceTag h r \<Rightarrow> False
       | Element n ch \<Rightarrow> validBoundary ch p k))"

text \<open>The container is a resource tag of the surface or lies below one.\<close>

fun reachesTag :: "node list \<Rightarrow> path \<Rightarrow> bool" where
  "reachesTag cs [] = False"
| "reachesTag cs (i # p) =
     (i < length cs \<and>
      (case cs ! i of
         TextNode s \<Rightarrow> False
       | ResourceTag h r \<Rightarrow> True
       | Element n ch \<Rightarrow> reachesTag ch p))"

text \<open>
  \<^verbatim>\<open>div.contains(range.commonAncestorContainer)\<close>: both containers are the surface or
  descendants of it, inside a resource tag or not.
\<close>

fun rangeInDiv :: "node list \<Rightarrow> domrange \<Rightarrow> bool" where
  "rangeInDiv cs (Range (Inside p) so (Inside q) eo) =
     ((validBoundary cs p so \<or> reachesTag cs p) \<and> (validBoundary cs q eo \<or> reachesTag cs q))"
| "rangeInDiv cs (Range a so b eo) = False"

text \<open>\<^verbatim>\<open>range.collapsed\<close> and \<^verbatim>\<open>range.startOffset\<close>.\<close>

fun collapsed :: "domrange \<Rightarrow> bool" where
  "collapsed (Range a so b eo) = (a = b \<and> so = eo)"

fun startOffset :: "domrange \<Rightarrow> nat" where
  "startOffset (Range a so b eo) = so"

text \<open>
  \<^verbatim>\<open>range.deleteContents()\<close> after the DOM standard: what lies after the start
  boundary (\<open>delFrom\<close>), what lies before the end boundary (\<open>delTo\<close>), and both
  within one tree (\<open>delBetween\<close>); the containers' ancestors stay. A tag that holds a
  boundary point is such an ancestor: it stays, and what goes are descendants of it.
\<close>

fun delFrom :: "path \<Rightarrow> nat \<Rightarrow> node list \<Rightarrow> node list" where
  "delFrom [] k cs = take k cs"
| "delFrom (i # p) k cs =
     (if i < length cs then
        take i cs @
        [case cs ! i of
           TextNode s \<Rightarrow> (if p = [] then TextNode (take k s) else TextNode s)
         | ResourceTag h r \<Rightarrow> ResourceTag h r
         | Element n ch \<Rightarrow> Element n (delFrom p k ch)]
      else cs)"

fun delTo :: "path \<Rightarrow> nat \<Rightarrow> node list \<Rightarrow> node list" where
  "delTo [] k cs = drop k cs"
| "delTo (i # p) k cs =
     (if i < length cs then
        (case cs ! i of
           TextNode s \<Rightarrow> (if p = [] then TextNode (drop k s) else TextNode s)
         | ResourceTag h r \<Rightarrow> ResourceTag h r
         | Element n ch \<Rightarrow> Element n (delTo p k ch)) # drop (Suc i) cs
      else cs)"

fun delBetween :: "path \<Rightarrow> nat \<Rightarrow> path \<Rightarrow> nat \<Rightarrow> node list \<Rightarrow> node list" where
  "delBetween [] so [] eo cs = take so cs @ drop eo cs"
| "delBetween [] so (j # q) eo cs = take so cs @ delTo (j # q) eo cs"
| "delBetween (i # p) so [] eo cs = delFrom (i # p) so cs @ drop eo cs"
| "delBetween (i # p) so (j # q) eo cs =
     (if i = j then
        (if i < length cs then
           (case cs ! i of
              TextNode s \<Rightarrow>
                (if p = [] \<and> q = [] then cs[i := TextNode (take so s @ drop eo s)] else cs)
            | ResourceTag h r \<Rightarrow> cs
            | Element n ch \<Rightarrow> cs[i := Element n (delBetween p so q eo ch)])
         else cs)
      else delFrom (i # p) so cs @ delTo (j # q) eo cs)"

text \<open>
  The boundary point the range collapses to after \<^verbatim>\<open>deleteContents\<close>: the start
  boundary when the start container is an inclusive ancestor of the end container,
  otherwise the position just after the ancestor of the start container that is a
  child of the common ancestor.
\<close>

fun afterDelete :: "path \<Rightarrow> nat \<Rightarrow> path \<Rightarrow> path \<times> nat" where
  "afterDelete [] so q = ([], so)"
| "afterDelete (i # p) so [] = ([], Suc i)"
| "afterDelete (i # p) so (j # q) =
     (if i = j then (case afterDelete p so q of (r, k) \<Rightarrow> (i # r, k)) else ([], Suc i))"

text \<open>
  \<^verbatim>\<open>range.insertNode\<close> at a collapsed boundary point, for the nodes inserted one after
  the other: a text container is split at the offset, an element container receives
  the nodes before its child at the offset. Nodes inserted at or below a tag become
  descendants of the tag, which are not represented: the tree stays as it is.
  \<^verbatim>\<open>insertResourceTag\<close> does not come here with a resource tag for such a container.
\<close>

fun insertNodes :: "path \<Rightarrow> nat \<Rightarrow> node list \<Rightarrow> node list \<Rightarrow> node list" where
  "insertNodes [] k new cs = take k cs @ new @ drop k cs"
| "insertNodes (i # p) k new cs =
     (if i < length cs then
        (case cs ! i of
           TextNode s \<Rightarrow>
             (if p = [] then take i cs @ TextNode (take k s) # new @ TextNode (drop k s) # drop (Suc i) cs
              else cs)
         | ResourceTag h r \<Rightarrow> cs
         | Element n ch \<Rightarrow> cs[i := Element n (insertNodes p k new ch)])
      else cs)"

text \<open>
  \<^verbatim>\<open>range.deleteContents()\<close> followed by the insertion of the given nodes at the
  collapsed range, for a range below the surface.
\<close>

fun replaceRange :: "domrange \<Rightarrow> node list \<Rightarrow> node list \<Rightarrow> node list" where
  "replaceRange (Range (Inside p) so (Inside q) eo) new cs =
     (if collapsed (Range (Inside p) so (Inside q) eo) then insertNodes p so new cs
      else (case afterDelete p so q of (r, k) \<Rightarrow> insertNodes r k new (delBetween p so q eo cs)))"
| "replaceRange (Range a so b eo) new cs = cs"

text \<open>
  The container that receives the inserted nodes: the start container of a collapsed
  range, and the container the range collapses to after \<^verbatim>\<open>deleteContents\<close> otherwise.
  The deletion leaves the nodes on the way to it in place.
\<close>

fun insertionContainer :: "domrange \<Rightarrow> path" where
  "insertionContainer (Range (Inside p) so (Inside q) eo) =
     (if collapsed (Range (Inside p) so (Inside q) eo) then p else fst (afterDelete p so q))"
| "insertionContainer (Range a so b eo) = []"


section \<open>Inserting and removing tags\<close>

text \<open>
  \<^verbatim>\<open>insertResourceTag(resource)\<close>. When \<^verbatim>\<open>resourcesMap\<close> has the id, only
  \<^verbatim>\<open>updateResourceTagContent\<close> runs, which rewrites descendants of the tag (label,
  icon, close button). Otherwise a fresh tag and a text node holding one space go to
  the selection's range when that range lies below the surface, and to the end of
  the surface when it does not. When the range lies below the surface and the
  container that receives the nodes is a resource tag or lies below one, the code puts
  the fresh tag among the descendants of that tag; the trees of this model do not
  represent a tag below a tag, and the result is \<open>None\<close>.
\<close>

definition insertResourceTag :: "selection \<Rightarrow> resource \<Rightarrow> state \<Rightarrow> state option" where
  "insertResourceTag sel resource st =
     (if \<not> mounted st then Some st
      else if resourcesMap st (resource_id resource) \<noteq> None then Some st
      else
        let rng = (case sel st of
                       None \<Rightarrow> None
                     | Some r \<Rightarrow> if rangeInDiv (childNodes st) r then Some r else None);
            new = [ResourceTag (nextHandle st) (resource_id resource), TextNode [0x20]]
        in if (case rng of
                 Some r \<Rightarrow> reachesTag (childNodes st) (insertionContainer r)
               | None \<Rightarrow> False)
           then None
           else Some (syncValue
             (st\<lparr>childNodes := (case rng of
                           Some r \<Rightarrow> replaceRange r new (childNodes st)
                         | None \<Rightarrow> childNodes st @ new),
                 resourcesMap := (resourcesMap st)(resource_id resource \<mapsto> nextHandle st),
                 nextHandle := Suc (nextHandle st),
                 pending := pending st @ [Tick_ensureInputArea]\<rparr>)))"

text \<open>
  \<^verbatim>\<open>removeResource(resourceId)\<close>: the element is looked up in \<^verbatim>\<open>resourcesMap\<close>;
  \<^verbatim>\<open>tag.parentNode\<close> is set exactly when the element is still in the tree.
\<close>

definition removeResource :: "jsstring \<Rightarrow> state \<Rightarrow> state" where
  "removeResource resourceId st =
     (case resourcesMap st resourceId of
        None \<Rightarrow> st
      | Some tag \<Rightarrow>
          if tag \<in> set (map fst (querySelectorAll_tags (childNodes st))) then
            let st1 = syncValue (st\<lparr>childNodes := removeElement tag (childNodes st),
                                    resourcesMap := (resourcesMap st)(resourceId := None)\<rparr>)
            in st1\<lparr>emitted := emitted st1 @ [Emit_resource_removed resourceId],
                   pending := pending st1 @ [Tick_removeResource]\<rparr>
          else st)"

section \<open>Reconciling with the resource list\<close>

text \<open>
  \<^verbatim>\<open>normalizePath\<close>. \<^verbatim>\<open>String.prototype.toLowerCase\<close> follows the Unicode case tables,
  which are not part of the repository; it is a parameter of the model.
\<close>

definition normalizePath :: "(jsstring \<Rightarrow> jsstring) \<Rightarrow> jsstring \<Rightarrow> jsstring" where
  "normalizePath toLowerCase p =
     (if p = [] then [] else toLowerCase (map (\<lambda>c. if c = 0x5C then 0x2F else c) p))"

text \<open>\<^verbatim>\<open>resource.filePath || ''\<close>.\<close>

definition filePath_or_empty :: "resource \<Rightarrow> jsstring" where
  "filePath_or_empty r = (case filePath r of None \<Rightarrow> [] | Some p \<Rightarrow> p)"

text \<open>
  \<^verbatim>\<open>findTagByFilePath(resource)\<close>: the first tag in document order whose id resolves in
  \<^verbatim>\<open>props.resources\<close> to a code resource with the same normalized path.
\<close>

definition findTagByFilePath ::
  "(jsstring \<Rightarrow> jsstring) \<Rightarrow> resource list \<Rightarrow> resource \<Rightarrow> node list \<Rightarrow> (nat \<times> jsstring) option" where
  "findTagByFilePath toLowerCase props resource cs =
     (if resource_type resource \<noteq> Code \<or> filePath_or_empty resource = [] then None
      else find (\<lambda>(h, i). case findResource props i of
                             None \<Rightarrow> False
                           | Some existingResource \<Rightarrow>
                               resource_type existingResource = Code \<and>
                               normalizePath toLowerCase (filePath_or_empty existingResource) =
                               normalizePath toLowerCase (filePath_or_empty resource))
             (querySelectorAll_tags cs))"

text \<open>
  The body of \<^verbatim>\<open>oldTags.forEach\<close> in \<^verbatim>\<open>updateResources\<close>, for one tag of the static
  list \<^verbatim>\<open>oldTags\<close>.
\<close>

definition pruneTag :: "resource list \<Rightarrow> nat \<times> jsstring \<Rightarrow> state \<Rightarrow> state" where
  "pruneTag resources = (\<lambda>(h, i) st.
     if findResource resources i = None
     then st\<lparr>childNodes := removeElement h (childNodes st), resourcesMap := (resourcesMap st)(i := None)\<rparr>
     else st)"

text \<open>
  The body of \<^verbatim>\<open>resources.forEach\<close> in \<^verbatim>\<open>updateResources\<close>, for one resource. For a tag
  that exists, \<^verbatim>\<open>updateResourceTagContent\<close> and the queued icon check only touch
  descendants of the tag. The result is \<open>None\<close> when \<^verbatim>\<open>insertResourceTag\<close> has none.
\<close>

definition mergeResource ::
  "(jsstring \<Rightarrow> jsstring) \<Rightarrow> selection \<Rightarrow> resource list \<Rightarrow> resource \<Rightarrow> state \<Rightarrow> state option" where
  "mergeResource toLowerCase sel props resource st =
     (case resourcesMap st (resource_id resource) of
        Some existingTag \<Rightarrow> Some st
      | None \<Rightarrow>
          (case (if resource_type resource = Code \<and> filePath_or_empty resource \<noteq> []
                 then findTagByFilePath toLowerCase props resource (childNodes st) else None) of
             Some (sameFileTag, oldResourceId) \<Rightarrow>
               Some (if oldResourceId \<noteq> resource_id resource
                then st\<lparr>resourcesMap := ((resourcesMap st)(oldResourceId := None))
                                           (resource_id resource \<mapsto> sameFileTag),
                        childNodes := setAttribute sameFileTag (resource_id resource) (childNodes st)\<rparr>
                else st)
           | None \<Rightarrow> insertResourceTag sel resource st))"

text \<open>
  \<^verbatim>\<open>list.forEach(f)\<close> for a callback that may have no result in the model: the
  callbacks run in the order of the list, each on the state the one before left.
\<close>

fun forEach :: "('a \<Rightarrow> state \<Rightarrow> state option) \<Rightarrow> 'a list \<Rightarrow> state \<Rightarrow> state option" where
  "forEach f [] st = Some st"
| "forEach f (x # xs) st = (case f x st of None \<Rightarrow> None | Some st' \<Rightarrow> forEach f xs st')"

text \<open>
  \<^verbatim>\<open>updateResources(resources)\<close>. \<^verbatim>\<open>findTagByFilePath\<close> reads \<^verbatim>\<open>props.resources\<close>, not
  the argument; the component's watcher and \<^verbatim>\<open>onMounted\<close> pass the value of
  \<^verbatim>\<open>props.resources\<close> as the argument.
\<close>

definition updateResources ::
  "(jsstring \<Rightarrow> jsstring) \<Rightarrow> selection \<Rightarrow> resource list \<Rightarrow> resource list \<Rightarrow> state \<Rightarrow> state option" where
  "updateResources toLowerCase sel props resources st =
     (if \<not> mounted st then Some st
      else
        let st1 = fold (pruneTag resources) (querySelectorAll_tags (childNodes st)) st
        in map_option (\<lambda>st2. st2\<lparr>pending := pending st2 @ [Tick_updateResources, Tick_syncValue]\<rparr>)
             (forEach (mergeResource toLowerCase sel props) resources st1))"

section \<open>Keyboard handling\<close>

record keyboardEvent =
  code :: string
  ctrlKey :: bool
  metaKey :: bool
  isComposing :: bool
  keyCode :: nat
  defaultPrevented :: bool

text \<open>
  \<^verbatim>\<open>container.previousSibling\<close> for a container below the surface; the \<^verbatim>\<open>div\<close> itself
  is the only child of its parent. The previous sibling of a descendant of a tag is
  a descendant of that tag, so it is not represented and it is no resource tag.
\<close>

fun previousSibling :: "node list \<Rightarrow> path \<Rightarrow> node option" where
  "previousSibling cs [] = None"
| "previousSibling cs [i] = (if 0 < i \<and> i < length cs then Some (cs ! (i - 1)) else None)"
| "previousSibling cs (i # j # p) =
     (if i < length cs then
        (case cs ! i of Element n ch \<Rightarrow> previousSibling ch (j # p) | _ \<Rightarrow> None)
      else None)"

fun startContainer_previousSibling :: "node list \<Rightarrow> domrange \<Rightarrow> node option" where
  "startContainer_previousSibling cs (Range (Inside p) so b eo) = previousSibling cs p"
| "startContainer_previousSibling cs (Range Outside so b eo) = None"

text \<open>\<^verbatim>\<open>insertNewLine()\<close>: a \<^verbatim>\<open>br\<close> element replaces the range.\<close>

definition insertNewLine :: "selection \<Rightarrow> state \<Rightarrow> state" where
  "insertNewLine sel st =
     (case sel st of
        None \<Rightarrow> st
      | Some r \<Rightarrow> syncValue (st\<lparr>childNodes := replaceRange r [Element ''BR'' []] (childNodes st)\<rparr>))"

text \<open>\<^verbatim>\<open>handleBackspace(e)\<close>.\<close>

definition handleBackspace :: "selection \<Rightarrow> keyboardEvent \<Rightarrow> state \<Rightarrow> state \<times> keyboardEvent" where
  "handleBackspace sel e st =
     (case sel st of
        None \<Rightarrow> (st, e)
      | Some rng \<Rightarrow>
          if collapsed rng \<and> startOffset rng = 0 then
            (case startContainer_previousSibling (childNodes st) rng of
               Some (ResourceTag h resourceId) \<Rightarrow>
                 (if resourceId \<noteq> [] then removeResource resourceId st else st,
                  e\<lparr>defaultPrevented := True\<rparr>)
             | _ \<Rightarrow> (st, e))
          else (st, e))"

text \<open>\<^verbatim>\<open>handleKeydown(e)\<close>.\<close>

definition handleKeydown :: "selection \<Rightarrow> keyboardEvent \<Rightarrow> state \<Rightarrow> state \<times> keyboardEvent" where
  "handleKeydown sel e st =
     (if code e = ''Enter'' \<and> \<not> isComposing e then
        (if ctrlKey e \<or> metaKey e then
           (let st1 = insertNewLine sel st
            in (st1\<lparr>emitted := emitted st1 @ [Emit_ctrl_enter]\<rparr>, e\<lparr>defaultPrevented := True\<rparr>))
         else (st\<lparr>emitted := emitted st @ [Emit_enter]\<rparr>, e\<lparr>defaultPrevented := True\<rparr>))
      else if keyCode e = 38 then (st\<lparr>emitted := emitted st @ [Emit_arrow_up]\<rparr>, e)
      else if code e = ''Backspace'' then handleBackspace sel e st
      else (st, e))"


section \<open>The callbacks run on the next tick\<close>

text \<open>
  The code units that \<^verbatim>\<open>String.prototype.trim\<close> strips: ECMAScript's white space and
  line terminators. \<^verbatim>\<open>s.trim() === ''\<close> holds exactly when every unit of \<open>s\<close> is one of
  them.
\<close>

definition isWhiteSpace :: "16 word \<Rightarrow> bool" where
  "isWhiteSpace c \<longleftrightarrow>
     c \<in> set [0x09, 0x0A, 0x0B, 0x0C, 0x0D, 0x20, 0xA0, 0x1680, 0x2000, 0x2001, 0x2002,
              0x2003, 0x2004, 0x2005, 0x2006, 0x2007, 0x2008, 0x2009, 0x200A, 0x2028,
              0x2029, 0x202F, 0x205F, 0x3000, 0xFEFF]"

definition blank :: "jsstring \<Rightarrow> bool" where
  "blank s \<longleftrightarrow> list_all isWhiteSpace s"

text \<open>
  \<^verbatim>\<open>textContent\<close> of the represented nodes. The code reads it where no tag can
  contribute: on the surface together with \<^verbatim>\<open>!hasTags\<close>, and on an element that has
  no element child.
\<close>

fun textContent :: "node list \<Rightarrow> jsstring" where
  "textContent [] = []"
| "textContent (TextNode t # cs) = t @ textContent cs"
| "textContent (ResourceTag h i # cs) = textContent cs"
| "textContent (Element n ch # cs) = textContent ch @ textContent cs"

text \<open>\<^verbatim>\<open>element.children.length === 0\<close>: no child is an element.\<close>

fun noElementChild :: "node list \<Rightarrow> bool" where
  "noElementChild [] = True"
| "noElementChild (TextNode t # cs) = noElementChild cs"
| "noElementChild (n # cs) = False"

text \<open>
  \<^verbatim>\<open>cleanupEmptyNodes(div)\<close>: the tree walk marks every blank text node and every
  element other than a tag that has blank text and no element child; the marked
  nodes are removed afterwards.
\<close>

fun cleanupEmptyNodes :: "node list \<Rightarrow> node list" where
  "cleanupEmptyNodes [] = []"
| "cleanupEmptyNodes (TextNode t # cs) =
     (if blank t then cleanupEmptyNodes cs else TextNode t # cleanupEmptyNodes cs)"
| "cleanupEmptyNodes (ResourceTag h i # cs) = ResourceTag h i # cleanupEmptyNodes cs"
| "cleanupEmptyNodes (Element n ch # cs) =
     (if blank (textContent ch) \<and> noElementChild ch then cleanupEmptyNodes cs
      else Element n (cleanupEmptyNodes ch) # cleanupEmptyNodes cs)"

text \<open>
  The \<^verbatim>\<open>while (lastChild)\<close> loop of \<^verbatim>\<open>ensureInputArea\<close>, on the children in reverse
  order: trailing blank text nodes go, and so does a trailing \<^verbatim>\<open>br\<close> that follows
  another \<^verbatim>\<open>br\<close>.
\<close>

fun stripTrailing :: "node list \<Rightarrow> node list" where
  "stripTrailing [] = []"
| "stripTrailing (TextNode t # prev) =
     (if blank t then stripTrailing prev else TextNode t # prev)"
| "stripTrailing (ResourceTag h i # prev) = ResourceTag h i # prev"
| "stripTrailing (Element n ch # prev) =
     (if n = ''BR'' \<and> (case prev of Element m ch' # prev' \<Rightarrow> m = ''BR'' | _ \<Rightarrow> False)
      then stripTrailing prev else Element n ch # prev)"

definition ensureInputArea :: "state \<Rightarrow> state" where
  "ensureInputArea st =
     (if \<not> mounted st then st
      else if querySelectorAll_tags (childNodes st) = [] then st
      else
        let cs = rev (stripTrailing (rev (childNodes st)))
        in st\<lparr>childNodes := (case rev cs of
                         [] \<Rightarrow> cs @ [Element ''BR'' []]
                       | ResourceTag h i # prev \<Rightarrow> cs @ [Element ''BR'' []]
                       | TextNode t # prev \<Rightarrow> (if blank t then cs @ [Element ''BR'' []] else cs)
                       | Element n ch # prev \<Rightarrow> cs)\<rparr>)"

text \<open>
  One queued callback. \<^verbatim>\<open>ensureMinHeight\<close> only sets a style, and the icon checks of
  \<^verbatim>\<open>updateResources\<close> only touch descendants of tags.
\<close>

fun runTick :: "deferred \<Rightarrow> state \<Rightarrow> state" where
  "runTick Tick_ensureInputArea st = ensureInputArea st"
| "runTick Tick_updateResources st =
     (if querySelectorAll_tags (childNodes st) = [] \<and> blank (textContent (childNodes st))
      then st\<lparr>childNodes := []\<rparr>
      else ensureInputArea (st\<lparr>childNodes := cleanupEmptyNodes (childNodes st)\<rparr>))"
| "runTick Tick_syncValue st = syncValue st"
| "runTick Tick_removeResource st =
     (if \<not> mounted st then st
      else if querySelectorAll_tags (childNodes st) = [] \<and> blank (textContent (childNodes st))
      then st\<lparr>childNodes := []\<rparr>
      else st\<lparr>childNodes := cleanupEmptyNodes (childNodes st)\<rparr>)"

text \<open>The next tick: every queued callback runs, in the order of queueing.\<close>

definition nextTick :: "state \<Rightarrow> state" where
  "nextTick st = fold runTick (pending st) (st\<lparr>pending := []\<rparr>)"


section \<open>The document model\<close>

text \<open>
  The document of the spec: an ordered sequence of text runs and resource tokens.
\<close>

datatype contentNode = TextRun jsstring | ResourceToken jsstring










section \<open>Invariants and concrete inputs\<close>

text \<open>
  Element identities are unique in the tree and were handed out by
  \<^verbatim>\<open>document.createElement\<close> before the next fresh one.
\<close>

definition wellFormed :: "state \<Rightarrow> bool" where
  "wellFormed st \<longleftrightarrow>
     distinct (map fst (querySelectorAll_tags (childNodes st))) \<and>
     list_all (\<lambda>h. h < nextHandle st) (map fst (querySelectorAll_tags (childNodes st)))"

text \<open>
  \<^verbatim>\<open>resourcesMap\<close> mirrors the surface: its keys are the \<^verbatim>\<open>data-resource-id\<close> values of
  the attached tags, and every attached tag is the element registered under its id.
\<close>

definition in_sync :: "state \<Rightarrow> bool" where
  "in_sync st \<longleftrightarrow>
     dom (resourcesMap st) = set (map snd (querySelectorAll_tags (childNodes st))) \<and>
     list_all (\<lambda>(h, i). resourcesMap st i = Some h) (querySelectorAll_tags (childNodes st))"

text \<open>The ids of the tokens of the document, in document order.\<close>

definition tokenIds :: "state \<Rightarrow> jsstring list" where
  "tokenIds st = map snd (querySelectorAll_tags (childNodes st))"


text \<open>A collapsed range: the caret in the container at path \<open>p\<close>, at offset \<open>k\<close>.\<close>

definition caretAt :: "path \<Rightarrow> nat \<Rightarrow> domrange" where
  "caretAt p k = Range (Inside p) k (Inside p) k"





text \<open>The component right after mounting, before \<^verbatim>\<open>onMounted\<close> runs.\<close>

definition mountedEmpty :: state where
  "mountedEmpty = \<lparr>mounted = True, childNodes = [], resourcesMap = Map.empty, nextHandle = 0,
                    emitted = [], pending = []\<rparr>"

text \<open>No selection: \<^verbatim>\<open>window.getSelection()\<close> has no range.\<close>

definition noSelection :: selection where
  "noSelection = (\<lambda>st. None)"

text \<open>ASCII text as a JavaScript string, and \<^verbatim>\<open>toLowerCase\<close> on ASCII letters.\<close>

definition ascii :: "string \<Rightarrow> jsstring" where
  "ascii s = map (\<lambda>c. of_nat (of_char c)) s"

definition asciiLower :: "jsstring \<Rightarrow> jsstring" where
  "asciiLower = map (\<lambda>c. if 0x41 \<le> c \<and> c \<le> 0x5A then c + 0x20 else c)"

definition keydown :: "string \<Rightarrow> nat \<Rightarrow> keyboardEvent" where
  "keydown c k = \<lparr>code = c, ctrlKey = False, metaKey = False, isComposing = False,
                  keyCode = k, defaultPrevented = False\<rparr>"

definition codeResource :: "string \<Rightarrow> string \<Rightarrow> resource" where
  "codeResource i p = \<lparr>resource_id = ascii i, resource_type = Code, filePath = Some (ascii p)\<rparr>"

definition fileResource :: "string \<Rightarrow> string \<Rightarrow> resource" where
  "fileResource i p = \<lparr>resource_id = ascii i, resource_type = File, filePath = Some (ascii p)\<rparr>"

text \<open>
  The document \<^verbatim>\<open>hello\<close>, token \<^verbatim>\<open>r1\<close>, \<^verbatim>\<open>world\<close> of the spec's first example, with the
  caret at the start of the second text node.
\<close>

definition helloWorld :: state where
  "helloWorld = mountedEmpty\<lparr>
     childNodes := [TextNode (ascii ''hello ''), ResourceTag 0 (ascii ''r1''), TextNode (ascii '' world'')],
     resourcesMap := [ascii ''r1'' \<mapsto> 0], nextHandle := 1\<rparr>"

text \<open>The text \<^verbatim>\<open>a\<close>, the token \<^verbatim>\<open>r1\<close> and a text node of one space.\<close>

definition tokenThenSpace :: state where
  "tokenThenSpace = mountedEmpty\<lparr>
     childNodes := [TextNode (ascii ''a''), ResourceTag 0 (ascii ''r1''), TextNode (ascii '' '')],
     resourcesMap := [ascii ''r1'' \<mapsto> 0], nextHandle := 1\<rparr>"



text \<open>
  What \<^verbatim>\<open>cleanupEmptyNodes\<close> keeps of a document: every token, and every text run that
  \<^verbatim>\<open>trim()\<close> does not empty.
\<close>

definition kept :: "contentNode \<Rightarrow> bool" where
  "kept x = (case x of TextRun t \<Rightarrow> \<not> blank t | ResourceToken i \<Rightarrow> True)"


definition pathKey :: "(jsstring \<Rightarrow> jsstring) \<Rightarrow> resource \<Rightarrow> jsstring" where
  "pathKey toLowerCase r = normalizePath toLowerCase (filePath_or_empty r)"

text \<open>
  The normalized path under which \<^verbatim>\<open>findTagByFilePath\<close> finds a tag with the id \<open>i\<close>, when
  the id resolves to a code resource of the list; and the first tag of the list of tags
  that is found under the path \<open>c\<close>.
\<close>

definition pathClass :: "(jsstring \<Rightarrow> jsstring) \<Rightarrow> resource list \<Rightarrow> jsstring \<Rightarrow> jsstring option" where
  "pathClass toLowerCase props i =
     (case findResource props i of
        None \<Rightarrow> None
      | Some e \<Rightarrow> if resource_type e = Code then Some (pathKey toLowerCase e) else None)"

definition firstTag ::
  "(jsstring \<Rightarrow> jsstring) \<Rightarrow> resource list \<Rightarrow> jsstring \<Rightarrow> (nat \<times> jsstring) list \<Rightarrow> (nat \<times> jsstring) option" where
  "firstTag toLowerCase props c tags = find (\<lambda>(h, i). pathClass toLowerCase props i = Some c) tags"









lemmas eval_defs =
  setContent_def parseContentWithResources_def parseLoop.simps startsWith_def
  lineTerminator_def findResource_def appendChild_def appendTag_def parseMatch_def DELIM_def
  updateResources_def pruneTag_def mergeResource_def findTagByFilePath_def
  insertResourceTag_def removeResource_def syncValue_def getContent_def
  filePath_or_empty_def normalizePath_def mountedEmpty_def noSelection_def ascii_def
  asciiLower_def keydown_def handleKeydown_def handleBackspace_def insertNewLine_def
  nextTick_def ensureInputArea_def blank_def isWhiteSpace_def tokenIds_def
  wellFormed_def in_sync_def codeResource_def fileResource_def caretAt_def helloWorld_def tokenThenSpace_def Let_def

section \<open>Basic facts about the tree functions\<close>

lemma storageText_append: "storageText (a @ b) = storageText a @ storageText b"
  by (induction a rule: storageText.induct) auto

lemma tags_append:
  "querySelectorAll_tags (a @ b) = querySelectorAll_tags a @ querySelectorAll_tags b"
  by (induction a rule: querySelectorAll_tags.induct) auto

lemma extractText_append:
  "extractTextFromNode (a @ b) = extractTextFromNode a @ extractTextFromNode b"
  by (induction a rule: extractTextFromNode.induct) auto

lemma storageText_extract:
  "list_all (\<lambda>(h, i). i \<noteq> []) (querySelectorAll_tags cs) \<Longrightarrow>
   extractTextFromNode cs = storageText cs"
  by (induction cs rule: storageText.induct) (auto simp: tags_append)

lemma findResource_id: "findResource props i = Some r \<Longrightarrow> resource_id r = i"
  by (auto simp: findResource_def find_Some_iff)

lemma findResource_in: "findResource props i = Some r \<Longrightarrow> r \<in> set props"
  by (auto simp: findResource_def find_Some_iff)









lemma in_sync_lookup:
  "in_sync st \<Longrightarrow> (h, i) \<in> set (querySelectorAll_tags (childNodes st)) \<Longrightarrow>
   resourcesMap st i = Some h"
  by (auto simp: in_sync_def list_all_iff)


subsection \<open>The clean-up keeps tags and non-blank text\<close>







section \<open>What a match of the pattern consumes\<close>

lemma startsWith_decompose: "startsWith p s \<Longrightarrow> s = p @ drop (length p) s"
  unfolding startsWith_def by (metis append_take_drop_id)

lemma lazyGroup_decompose: "lazyGroup s = Some (g, r) \<Longrightarrow> s = g @ DELIM @ r"
proof (induction s arbitrary: g)
  case Nil
  then show ?case by simp
next
  case (Cons c cs)
  show ?case
  proof (cases "startsWith DELIM (c # cs)")
    case True
    with Cons.prems have "g = []" "r = drop (length DELIM) (c # cs)" by auto
    with startsWith_decompose[OF True] show ?thesis by simp
  next
    case False
    with Cons.prems obtain g' where "lazyGroup cs = Some (g', r)" "g = c # g'"
      by (auto split: if_splits)
    with Cons.IH show ?thesis by simp
  qed
qed

lemma exec_decompose:
  "resourcePattern_exec s = Some (b, g, r) \<Longrightarrow> s = b @ DELIM @ g @ DELIM @ r"
proof (induction s arbitrary: b)
  case Nil
  then show ?case by simp
next
  case (Cons c cs)
  show ?case
  proof (cases "if startsWith DELIM (c # cs) then lazyGroup (drop (length DELIM) (c # cs)) else None")
    case None
    with Cons.prems obtain b' where "resourcePattern_exec cs = Some (b', g, r)" "b = c # b'"
      by auto
    with Cons.IH show ?thesis by simp
  next
    case (Some a)
    with Cons.prems have sw: "startsWith DELIM (c # cs)"
      and lg: "lazyGroup (drop (length DELIM) (c # cs)) = Some (g, r)" and b: "b = []"
      by (auto split: if_splits)
    from startsWith_decompose[OF sw] lazyGroup_decompose[OF lg] b show ?thesis
      by simp
  qed
qed

section \<open>Parsing loses nothing\<close>

lemma parseLoop_None:
  "resourcePattern_exec content = None \<Longrightarrow>
   parseLoop props content st =
     (if content \<noteq> [] then appendChild (TextNode content) st else st)"
  by (simp add: parseLoop.simps[of props content st])

lemma parseLoop_Some:
  "resourcePattern_exec content = Some (b, g, r) \<Longrightarrow>
   parseLoop props content st = parseLoop props r (parseMatch props b g st)"
  by (simp add: parseLoop.simps[of props content st])

lemma parseMatch_storageText:
  "storageText (childNodes (parseMatch props b g st)) =
   storageText (childNodes st) @ b @ DELIM @ g @ DELIM"
  by (auto simp: parseMatch_def appendChild_def appendTag_def storageText_append
      split: option.splits dest: findResource_id)

lemma parseLoop_storageText:
  "storageText (childNodes (parseLoop props content st)) = storageText (childNodes st) @ content"
proof (induction props content st rule: parseLoop.induct)
  case (1 props content st)
  show ?case
  proof (cases "resourcePattern_exec content")
    case None
    then show ?thesis
      by (simp add: parseLoop_None appendChild_def storageText_append)
  next
    case (Some m)
    obtain b g r where m: "m = (b, g, r)" by (cases m)
    from Some m have c: "content = b @ DELIM @ g @ DELIM @ r" by (auto dest: exec_decompose)
    have "storageText (childNodes (parseLoop props r (parseMatch props b g st))) =
        storageText (childNodes (parseMatch props b g st)) @ r"
      using "1.IH" Some m by simp
    then show ?thesis
      using Some m by (simp add: parseLoop_Some parseMatch_storageText c)
  qed
qed

lemma parseMatch_tags:
  "(h, i) \<in> set (querySelectorAll_tags (childNodes (parseMatch props b g st))) \<Longrightarrow>
   (h, i) \<in> set (querySelectorAll_tags (childNodes st)) \<or> findResource props i \<noteq> None"
  by (auto simp: parseMatch_def appendChild_def appendTag_def tags_append
      split: option.splits if_splits dest: findResource_id)

lemma parseLoop_tags:
  "(h, i) \<in> set (querySelectorAll_tags (childNodes (parseLoop props content st))) \<Longrightarrow>
   (h, i) \<in> set (querySelectorAll_tags (childNodes st)) \<or> findResource props i \<noteq> None"
proof (induction props content st rule: parseLoop.induct)
  case (1 props content st)
  show ?case
  proof (cases "resourcePattern_exec content")
    case None
    with "1.prems" show ?thesis
      by (auto simp: parseLoop_None appendChild_def tags_append split: if_splits)
  next
    case (Some m)
    obtain b g r where m: "m = (b, g, r)" by (cases m)
    from "1.IH"[OF Some[unfolded m] refl refl] "1.prems" Some m
    have "(h, i) \<in> set (querySelectorAll_tags (childNodes (parseMatch props b g st))) \<or>
          findResource props i \<noteq> None"
      by (simp add: parseLoop_Some)
    then show ?thesis using parseMatch_tags by blast
  qed
qed

lemma parseMatch_mounted: "mounted (parseMatch props b g st) = mounted st"
  by (simp add: parseMatch_def appendChild_def appendTag_def split: option.splits)

lemma parseLoop_mounted: "mounted (parseLoop props content st) = mounted st"
proof (induction props content st rule: parseLoop.induct)
  case (1 props content st)
  show ?case
  proof (cases "resourcePattern_exec content")
    case None
    then show ?thesis by (simp add: parseLoop_None appendChild_def)
  next
    case (Some m)
    obtain b g r where m: "m = (b, g, r)" by (cases m)
    with Some "1.IH" show ?thesis by (simp add: parseLoop_Some parseMatch_mounted)
  qed
qed

lemma setContent_mounted: "mounted (setContent props content st) = mounted st"
  by (simp add: setContent_def parseContentWithResources_def Let_def parseLoop_mounted)

lemma setContent_tags_known:
  assumes "mounted st"
    and "(h, i) \<in> set (querySelectorAll_tags (childNodes (setContent props content st)))"
  shows "findResource props i \<noteq> None"
proof (cases "includes_str DELIM content")
  case True
  with assms have
    "(h, i) \<in> set (querySelectorAll_tags (childNodes (parseLoop props content (st\<lparr>childNodes := []\<rparr>))))"
    by (simp add: setContent_def parseContentWithResources_def Let_def)
  from parseLoop_tags[OF this] show ?thesis by simp
next
  case False
  with assms show ?thesis by (simp add: setContent_def split: if_splits)
qed

lemma setContent_storageText:
  "mounted st \<Longrightarrow> storageText (childNodes (setContent props content st)) = content"
  by (simp add: setContent_def parseContentWithResources_def Let_def parseLoop_storageText)

text \<open>
  C6. \<^verbatim>\<open>setContent\<close> is a total function of the storage string and the resource list:
  no input makes it fail. Read back as storage text, the nodes it builds spell the
  input exactly; every tag it builds carries an id found in the resource list, so a
  marker whose id is not found stays in a text node, markers included; when no resource
  has the empty id, \<^verbatim>\<open>getContent\<close> returns the input; and the marker around
  \<^verbatim>\<open>missing\<close>, parsed with no resources, gives a single text node holding the marker
  string.
\<close>

theorem C6_unknown_marker_kept_as_text:
  assumes "mounted st"
  shows "storageText (childNodes (setContent props content st)) = content \<and>
         list_all (\<lambda>(h, i). findResource props i \<noteq> None)
           (querySelectorAll_tags (childNodes (setContent props content st))) \<and>
         (list_all (\<lambda>r. resource_id r \<noteq> []) props \<longrightarrow>
            getContent (setContent props content st) = content) \<and>
         childNodes (setContent [] (DELIM @ ascii ''missing'' @ DELIM) st) =
           [TextNode (DELIM @ ascii ''missing'' @ DELIM)]"
proof -
  let ?st = "setContent props content st"
  have known: "list_all (\<lambda>(h, i). findResource props i \<noteq> None)
                 (querySelectorAll_tags (childNodes ?st))"
    using setContent_tags_known[OF assms] by (auto simp: list_all_iff)
  have "getContent ?st = content" if ids: "list_all (\<lambda>r. resource_id r \<noteq> []) props"
  proof -
    have "i \<noteq> []" if "(h, i) \<in> set (querySelectorAll_tags (childNodes ?st))" for h i
    proof -
      from setContent_tags_known[OF assms that] obtain r where r: "findResource props i = Some r"
        by auto
      from findResource_in[OF r] findResource_id[OF r] ids show ?thesis
        by (auto simp: list_all_iff)
    qed
    then have "list_all (\<lambda>(h, i). i \<noteq> []) (querySelectorAll_tags (childNodes ?st))"
      by (auto simp: list_all_iff)
    from storageText_extract[OF this] show ?thesis
      using assms by (simp add: getContent_def setContent_mounted setContent_storageText)
  qed
  moreover have "childNodes (setContent [] (DELIM @ ascii ''missing'' @ DELIM) st) =
      [TextNode (DELIM @ ascii ''missing'' @ DELIM)]"
    using assms
    by (simp add: setContent_def parseContentWithResources_def parseLoop.simps parseMatch_def
        findResource_def appendChild_def startsWith_def lineTerminator_def DELIM_def ascii_def
        Let_def)
  ultimately show ?thesis
    using known setContent_storageText[OF assms] by simp
qed

theorem C6_unknown_marker_witness:
  "mounted mountedEmpty \<and>
   childNodes (setContent [fileResource ''r1'' ''a.ts'']
                 (ascii ''see '' @ DELIM @ ascii ''zz'' @ DELIM @ DELIM @ ascii ''r1'' @ DELIM)
                 mountedEmpty) =
     [TextNode (ascii ''see ''), TextNode (DELIM @ ascii ''zz'' @ DELIM), ResourceTag 0 (ascii ''r1'')] \<and>
   getContent (setContent [fileResource ''r1'' ''a.ts'']
                 (ascii ''see '' @ DELIM @ ascii ''zz'' @ DELIM @ DELIM @ ascii ''r1'' @ DELIM)
                 mountedEmpty) =
     ascii ''see '' @ DELIM @ ascii ''zz'' @ DELIM @ DELIM @ ascii ''r1'' @ DELIM"
proof -
  have m: "mounted mountedEmpty" by (simp add: mountedEmpty_def)
  have ids: "list_all (\<lambda>r. resource_id r \<noteq> []) [fileResource ''r1'' ''a.ts'']"
    by (simp add: fileResource_def ascii_def)
  have "childNodes (setContent [fileResource ''r1'' ''a.ts'']
                 (ascii ''see '' @ DELIM @ ascii ''zz'' @ DELIM @ DELIM @ ascii ''r1'' @ DELIM)
                 mountedEmpty) =
     [TextNode (ascii ''see ''), TextNode (DELIM @ ascii ''zz'' @ DELIM), ResourceTag 0 (ascii ''r1'')]"
    by (simp add: eval_defs)
  with C6_unknown_marker_kept_as_text[OF m, of "[fileResource ''r1'' ''a.ts'']"
      "ascii ''see '' @ DELIM @ ascii ''zz'' @ DELIM @ DELIM @ ascii ''r1'' @ DELIM"] ids m
  show ?thesis by simp
qed

section \<open>Reconcile: tags under the mutations of the tree\<close>














subsection \<open>Pruning\<close>











subsection \<open>Inserting a new tag\<close>



















section \<open>Reconciliation completeness\<close>




section \<open>Reconciling twice\<close>






subsection \<open>The search by path and the cases of a merge step\<close>
















lemma firstTag_None:
  "firstTag toLowerCase rs c T = None \<Longrightarrow> (h, a) \<in> set T \<Longrightarrow> pathClass toLowerCase rs a \<noteq> Some c"
  unfolding firstTag_def by (auto simp: find_None_iff)






subsection \<open>The first run\<close>



subsection \<open>Trees of the same shape\<close>








subsection \<open>The second run\<close>













text \<open>
  With an id that occurs twice in the list a second run inserts a tag, with no selection
  at all, and so it does under a \<^verbatim>\<open>toLowerCase\<close> that erases its argument.
\<close>

lemma reconcile_twice_duplicate_ids:
  "map_option childNodes (updateResources asciiLower noSelection
      [codeResource ''a'' ''f.ts'', codeResource ''b'' ''f.ts'', codeResource ''c'' ''g.ts'', codeResource ''a'' ''g.ts'']
      [codeResource ''a'' ''f.ts'', codeResource ''b'' ''f.ts'', codeResource ''c'' ''g.ts'', codeResource ''a'' ''g.ts'']
      mountedEmpty) =
     Some [ResourceTag 0 (ascii ''b''), TextNode (ascii '' ''), ResourceTag 1 (ascii ''a''), TextNode (ascii '' '')] \<and>
   map_option childNodes (Option.bind (updateResources asciiLower noSelection
      [codeResource ''a'' ''f.ts'', codeResource ''b'' ''f.ts'', codeResource ''c'' ''g.ts'', codeResource ''a'' ''g.ts'']
      [codeResource ''a'' ''f.ts'', codeResource ''b'' ''f.ts'', codeResource ''c'' ''g.ts'', codeResource ''a'' ''g.ts'']
      mountedEmpty)
      (updateResources asciiLower noSelection
        [codeResource ''a'' ''f.ts'', codeResource ''b'' ''f.ts'', codeResource ''c'' ''g.ts'', codeResource ''a'' ''g.ts'']
        [codeResource ''a'' ''f.ts'', codeResource ''b'' ''f.ts'', codeResource ''c'' ''g.ts'', codeResource ''a'' ''g.ts''])) =
     Some [ResourceTag 0 (ascii ''b''), TextNode (ascii '' ''), ResourceTag 1 (ascii ''a''), TextNode (ascii '' ''),
      ResourceTag 2 (ascii ''c''), TextNode (ascii '' '')]"
  by (simp add: eval_defs)

lemma reconcile_twice_erasing_toLowerCase:
  "map_option childNodes (updateResources (\<lambda>s. []) noSelection
      [codeResource ''e'' '''', codeResource ''r'' ''f.ts'']
      [codeResource ''e'' '''', codeResource ''r'' ''f.ts''] mountedEmpty) =
     Some [ResourceTag 0 (ascii ''r''), TextNode (ascii '' '')] \<and>
   map_option childNodes (Option.bind (updateResources (\<lambda>s. []) noSelection
      [codeResource ''e'' '''', codeResource ''r'' ''f.ts'']
      [codeResource ''e'' '''', codeResource ''r'' ''f.ts''] mountedEmpty)
      (updateResources (\<lambda>s. []) noSelection
        [codeResource ''e'' '''', codeResource ''r'' ''f.ts'']
        [codeResource ''e'' '''', codeResource ''r'' ''f.ts''])) =
     Some [ResourceTag 0 (ascii ''r''), TextNode (ascii '' ''), ResourceTag 1 (ascii ''e''), TextNode (ascii '' '')]"
  by (simp add: eval_defs)

section \<open>Round trip through the storage string\<close>








subsection \<open>The pattern on marker-free text\<close>

lemma includes_str_suffix: "includes_str p (a @ b) \<Longrightarrow> \<not> includes_str p b \<Longrightarrow> a \<noteq> []"
  by auto





























section \<open>Keyboard events\<close>

text \<open>
  C5, as the code has it. A key event whose \<^verbatim>\<open>code\<close> is \<^verbatim>\<open>Enter\<close>, the Enter key of the
  main block, with neither Ctrl nor Cmd held and outside composition, emits the
  \<^verbatim>\<open>enter\<close> (submit) signal, suppresses the default action and changes nothing else:
  the child nodes of the surface, \<^verbatim>\<open>resourcesMap\<close> and the queued callbacks stay as they
  were, whatever the state and the selection.
\<close>

theorem C5_enter_emits_submit_only:
  assumes "code e = ''Enter''" and "\<not> isComposing e" and "\<not> ctrlKey e" and "\<not> metaKey e"
  shows "handleKeydown sel e st =
           (st\<lparr>emitted := emitted st @ [Emit_enter]\<rparr>, e\<lparr>defaultPrevented := True\<rparr>) \<and>
         childNodes (fst (handleKeydown sel e st)) = childNodes st \<and>
         getContent (fst (handleKeydown sel e st)) = getContent st"
  using assms by (simp add: handleKeydown_def getContent_def)

theorem C5_enter_witness:
  "code (keydown ''Enter'' 13) = ''Enter'' \<and> \<not> isComposing (keydown ''Enter'' 13) \<and>
   \<not> ctrlKey (keydown ''Enter'' 13) \<and> \<not> metaKey (keydown ''Enter'' 13) \<and>
   childNodes (fst (handleKeydown noSelection (keydown ''Enter'' 13)
               (mountedEmpty\<lparr>childNodes := [TextNode (ascii ''hi'')]\<rparr>))) = [TextNode (ascii ''hi'')] \<and>
   emitted (fst (handleKeydown noSelection (keydown ''Enter'' 13)
               (mountedEmpty\<lparr>childNodes := [TextNode (ascii ''hi'')]\<rparr>))) = [Emit_enter]"
  using C5_enter_emits_submit_only
          [of "keydown ''Enter'' 13" noSelection "mountedEmpty\<lparr>childNodes := [TextNode (ascii ''hi'')]\<rparr>"]
  by (simp add: keydown_def mountedEmpty_def)

text \<open>
  C5 as stated fails. The Enter key of the numeric keypad sends a key event with
  \<^verbatim>\<open>keyCode\<close> 13 and \<^verbatim>\<open>code\<close> \<^verbatim>\<open>NumpadEnter\<close>. The handler compares \<^verbatim>\<open>code\<close> with \<^verbatim>\<open>Enter\<close>
  only, so with no modifier and outside composition it emits nothing and does not
  suppress the default action, by which the browser breaks the line in the surface.
\<close>

theorem C5_numpad_enter_counterexample:
  "keyCode (keydown ''NumpadEnter'' 13) = 13 \<and>
   \<not> ctrlKey (keydown ''NumpadEnter'' 13) \<and> \<not> metaKey (keydown ''NumpadEnter'' 13) \<and>
   \<not> isComposing (keydown ''NumpadEnter'' 13) \<and>
   handleKeydown noSelection (keydown ''NumpadEnter'' 13)
       (mountedEmpty\<lparr>childNodes := [TextNode (ascii ''hi'')]\<rparr>) =
     (mountedEmpty\<lparr>childNodes := [TextNode (ascii ''hi'')]\<rparr>, keydown ''NumpadEnter'' 13) \<and>
   emitted (fst (handleKeydown noSelection (keydown ''NumpadEnter'' 13)
       (mountedEmpty\<lparr>childNodes := [TextNode (ascii ''hi'')]\<rparr>))) = [] \<and>
   \<not> defaultPrevented (snd (handleKeydown noSelection (keydown ''NumpadEnter'' 13)
       (mountedEmpty\<lparr>childNodes := [TextNode (ascii ''hi'')]\<rparr>)))"
  by (simp add: eval_defs)

text \<open>
  C8, as the code has it. A key event with \<^verbatim>\<open>keyCode\<close> 38 that is not taken by the Enter
  branch emits \<^verbatim>\<open>arrow-up\<close> in every state, whether the flattened text is empty or not,
  and changes nothing else; the emptiness test is left to the listener.
\<close>

theorem C8_arrow_up_always_emitted:
  assumes "keyCode e = 38" and "\<not> (code e = ''Enter'' \<and> \<not> isComposing e)"
  shows "handleKeydown sel e st = (st\<lparr>emitted := emitted st @ [Emit_arrow_up]\<rparr>, e)"
  using assms by (auto simp: handleKeydown_def)

theorem C8_arrow_up_witness:
  "keyCode (keydown ''ArrowUp'' 38) = 38 \<and>
   emitted (fst (handleKeydown noSelection (keydown ''ArrowUp'' 38) mountedEmpty)) = [Emit_arrow_up] \<and>
   getContent mountedEmpty = []"
  using C8_arrow_up_always_emitted [of "keydown ''ArrowUp'' 38" noSelection mountedEmpty]
  by (simp add: keydown_def mountedEmpty_def getContent_def)

text \<open>
  C8 as stated fails: on a surface whose flattened text is \<^verbatim>\<open>hi\<close>, ArrowUp still
  emits \<^verbatim>\<open>arrow-up\<close>.
\<close>

theorem C8_arrow_up_nonempty_counterexample:
  "getContent (mountedEmpty\<lparr>childNodes := [TextNode (ascii ''hi'')]\<rparr>) = ascii ''hi'' \<and>
   ascii ''hi'' \<noteq> [] \<and>
   emitted (fst (handleKeydown noSelection (keydown ''ArrowUp'' 38)
                   (mountedEmpty\<lparr>childNodes := [TextNode (ascii ''hi'')]\<rparr>))) = [Emit_arrow_up]"
  by (simp add: eval_defs)


section \<open>Backspace at the right edge of a token\<close>

lemma kept_simps [simp]: "kept (TextRun t) = (\<not> blank t)" "kept (ResourceToken i) = True"
  by (simp_all add: kept_def)








section \<open>A token whose id has left the list\<close>









section \<open>Where the code departs from the intended behaviour\<close>

text \<open>
  C9. A storage string with two markers of the same id parses into two tags of that
  id, of which \<^verbatim>\<open>resourcesMap\<close> registers the second. After \<^verbatim>\<open>removeResource\<close> the first
  tag is still in the document while the map has no entry for the id, and
  \<^verbatim>\<open>insertResourceTag\<close> for the same id adds a second token.
\<close>

theorem C9_second_token_inserted:
  "childNodes (removeResource (ascii ''x'')
     (setContent [fileResource ''x'' ''a.ts'']
        (DELIM @ ascii ''x'' @ DELIM @ DELIM @ ascii ''x'' @ DELIM) mountedEmpty)) =
     [ResourceTag 0 (ascii ''x'')] \<and>
   map_option childNodes (insertResourceTag noSelection (fileResource ''x'' ''a.ts'')
     (removeResource (ascii ''x'')
       (setContent [fileResource ''x'' ''a.ts'']
          (DELIM @ ascii ''x'' @ DELIM @ DELIM @ ascii ''x'' @ DELIM) mountedEmpty))) =
     Some [ResourceTag 0 (ascii ''x''), ResourceTag 2 (ascii ''x''), TextNode (ascii '' '')]"
  by (simp add: eval_defs)

text \<open>
  C10. After a reconcile with one resource the map mirrors the surface. \<^verbatim>\<open>setContent\<close>
  with a plain string then replaces the children of the surface and leaves
  \<^verbatim>\<open>resourcesMap\<close> as it was: the map keeps an entry for a detached element, and a
  later reconcile with the same list inserts nothing. In the state of C9, where a tag
  is attached and the map has no entry for its id, \<^verbatim>\<open>removeResource\<close> changes nothing.
\<close>

theorem C10_map_out_of_sync:
  "map_option in_sync (updateResources toLowerCase noSelection
      [fileResource ''x'' ''a.ts''] [fileResource ''x'' ''a.ts''] mountedEmpty) = Some True \<and>
   map_option (\<lambda>s. tokenIds (setContent [fileResource ''x'' ''a.ts''] (ascii ''hello'') s))
     (updateResources toLowerCase noSelection
        [fileResource ''x'' ''a.ts''] [fileResource ''x'' ''a.ts''] mountedEmpty) = Some [] \<and>
   map_option (\<lambda>s. resourcesMap (setContent [fileResource ''x'' ''a.ts''] (ascii ''hello'') s) (ascii ''x''))
     (updateResources toLowerCase noSelection
        [fileResource ''x'' ''a.ts''] [fileResource ''x'' ''a.ts''] mountedEmpty) = Some (Some 0) \<and>
   map_option (\<lambda>s. in_sync (setContent [fileResource ''x'' ''a.ts''] (ascii ''hello'') s))
     (updateResources toLowerCase noSelection
        [fileResource ''x'' ''a.ts''] [fileResource ''x'' ''a.ts''] mountedEmpty) = Some False \<and>
   map_option tokenIds
     (Option.bind (updateResources toLowerCase noSelection
        [fileResource ''x'' ''a.ts''] [fileResource ''x'' ''a.ts''] mountedEmpty)
       (\<lambda>s. updateResources toLowerCase noSelection [fileResource ''x'' ''a.ts''] [fileResource ''x'' ''a.ts'']
          (setContent [fileResource ''x'' ''a.ts''] (ascii ''hello'') s))) = Some [] \<and>
   tokenIds (removeResource (ascii ''x'')
     (setContent [fileResource ''x'' ''a.ts'']
        (DELIM @ ascii ''x'' @ DELIM @ DELIM @ ascii ''x'' @ DELIM) mountedEmpty)) = [ascii ''x''] \<and>
   removeResource (ascii ''x'') (removeResource (ascii ''x'')
     (setContent [fileResource ''x'' ''a.ts'']
        (DELIM @ ascii ''x'' @ DELIM @ DELIM @ ascii ''x'' @ DELIM) mountedEmpty)) =
   removeResource (ascii ''x'')
     (setContent [fileResource ''x'' ''a.ts'']
        (DELIM @ ascii ''x'' @ DELIM @ DELIM @ ascii ''x'' @ DELIM) mountedEmpty)"
  by (simp add: eval_defs)

end
